theory Spec2Isabelle
  imports Complex_Main
begin

section \<open>Batch break analyses of the tutorials\<close>

text \<open>
  The notebooks \<^verbatim>\<open>pipe_break_tutorial.ipynb\<close> and \<^verbatim>\<open>pipe_segments_tutorial.ipynb\<close>
  run one hydraulic simulation per scenario and record, per scenario, the junctions the
  break impacts. The hydraulic simulator, the network file and the metrics are outside
  the notebooks: they enter the model as parameters.
\<close>

type_synonym node_name = string
type_synonym link_name = string

text \<open>
  \<^verbatim>\<open>results.node['pressure']\<close>: a table indexed by simulation time (seconds, increasing)
  with one column per node. The simulator reports every node of the network at every
  time, so a cell is read with a total function; \<open>columns\<close> lists the columns a
  selection kept.
\<close>

record frame =
  index :: "int list"
  columns :: "node_name list"
  cell :: "int \<Rightarrow> node_name \<Rightarrow> real"

text \<open>
  The exception a failing simulation raises, an instance of \<^verbatim>\<open>Exception\<close>: the object
  \<^verbatim>\<open>e\<close> bound by \<^verbatim>\<open>except Exception as e\<close>, kept as its message.
\<close>

type_synonym py_exception = string

text \<open>
  A control made by
  \<^verbatim>\<open>Control(SimTimeCondition(wn, 'Above', start_time), ControlAction(pipe, 'status', 0))\<close>.
\<close>

record control =
  target :: link_name
  above_time :: int

text \<open>
  A water network model freshly built from \<^verbatim>\<open>inp_file\<close> with the four hydraulic
  options set: what distinguishes one scenario from another is the list of named
  controls added with \<^verbatim>\<open>wn.add_control\<close>.
\<close>

type_synonym wn_model = "(string \<times> control) list"

text \<open>\<^verbatim>\<open>WNTRSimulator(wn).run_sim()\<close> followed by \<^verbatim>\<open>.node['pressure']\<close>: it returns a
  table or raises.\<close>

type_synonym simulator = "wn_model \<Rightarrow> py_exception + frame"

text \<open>The notebook's global variables that the loops read.\<close>

record globals =
  start_time :: int
  minimum_pressure :: real
  nzd_junct :: "node_name list"
  normal_pressure_below_pmin :: "node_name list"

text \<open>\<^verbatim>\<open>AED[AED > 0].index\<close>, for the series \<^verbatim>\<open>AED\<close> of average expected demands.\<close>

definition nzd_junctions :: "(node_name \<times> real) list \<Rightarrow> node_name list" where
  "nzd_junctions AED = map fst (filter (\<lambda>(j, d). 0 < d) AED)"

text \<open>\<^verbatim>\<open>df.loc[start::, cols]\<close>: the rows labelled \<open>start\<close> or later, the columns \<open>cols\<close>.\<close>

definition loc :: "frame \<Rightarrow> int \<Rightarrow> node_name list \<Rightarrow> frame" where
  "loc df start cols =
     \<lparr>index = filter (\<lambda>t. start \<le> t) (index df), columns = cols, cell = cell df\<rparr>"

text \<open>\<^verbatim>\<open>df.columns[(df < pmin).any()]\<close>: the columns with some row below \<open>pmin\<close>.\<close>

definition columns_any_below :: "frame \<Rightarrow> real \<Rightarrow> node_name list" where
  "columns_any_below df pmin =
     filter (\<lambda>j. list_ex (\<lambda>t. cell df t j < pmin) (index df)) (columns df)"

text \<open>The baseline cell: the junctions below minimum pressure under normal conditions.\<close>

definition baseline_below_pmin :: "frame \<Rightarrow> int \<Rightarrow> node_name list \<Rightarrow> real \<Rightarrow> node_name list" where
  "baseline_below_pmin results start nzd pmin = columns_any_below (loc results start nzd) pmin"

text \<open>
  The three statements of the \<^verbatim>\<open>try\<close> body after the simulation. The notebook turns
  the set into a list with \<^verbatim>\<open>list(...)\<close>, whose order Python leaves open; later cells
  use only its length and a sum over it, so the model keeps the set.
\<close>

definition impacted_junctions :: "globals \<Rightarrow> frame \<Rightarrow> node_name set" where
  "impacted_junctions g sim_results =
     (let sim_pressure = loc sim_results (start_time g) (nzd_junct g);
          sim_pressure_below_pmin = columns_any_below sim_pressure (minimum_pressure g)
      in set sim_pressure_below_pmin - set (normal_pressure_below_pmin g))"

text \<open>\<^verbatim>\<open>wn.add_control('close pipe ' + pipe_name, ctrl)\<close>\<close>

definition add_close_control :: "globals \<Rightarrow> link_name \<Rightarrow> wn_model \<Rightarrow> wn_model" where
  "add_close_control g pipe_name wn =
     wn @ [(''close pipe '' @ pipe_name, \<lparr>target = pipe_name, above_time = start_time g\<rparr>)]"

text \<open>
  The state the loops update: the dictionary \<^verbatim>\<open>analysis_results\<close> (the value
  \<open>None\<close> is Python's \<^verbatim>\<open>None\<close>) and the lines printed for failed scenarios.
\<close>

record 'id batch =
  analysis_results :: "'id \<rightharpoonup> node_name set option"
  printed :: "('id \<times> py_exception) list"

text \<open>The \<^verbatim>\<open>try\<close> / \<^verbatim>\<open>except Exception\<close> / \<^verbatim>\<open>finally\<close> statement of both loops.\<close>

definition try_scenario :: "simulator \<Rightarrow> globals \<Rightarrow> 'id \<Rightarrow> wn_model \<Rightarrow> 'id batch \<Rightarrow> 'id batch" where
  "try_scenario run_sim g scenario wn st =
     (case run_sim wn of
        Inr sim_results \<Rightarrow>
          st\<lparr>analysis_results := (analysis_results st)(scenario \<mapsto> Some (impacted_junctions g sim_results))\<rparr>
      | Inl e \<Rightarrow>
          st\<lparr>analysis_results := (analysis_results st)(scenario \<mapsto> None),
             printed := printed st @ [(scenario, e)]\<rparr>)"

text \<open>The loop of the pipe-break notebook over \<^verbatim>\<open>pipes_of_interest.index\<close>.\<close>

fun pipe_break_loop :: "simulator \<Rightarrow> globals \<Rightarrow> link_name list \<Rightarrow> link_name batch \<Rightarrow> link_name batch" where
  "pipe_break_loop run_sim g [] st = st"
| "pipe_break_loop run_sim g (pipe_name # rest) st =
     pipe_break_loop run_sim g rest
       (try_scenario run_sim g pipe_name (add_close_control g pipe_name []) st)"

definition pipe_break_analysis :: "simulator \<Rightarrow> globals \<Rightarrow> link_name list \<Rightarrow> link_name batch" where
  "pipe_break_analysis run_sim g pipes_of_interest =
     pipe_break_loop run_sim g pipes_of_interest \<lparr>analysis_results = Map.empty, printed = []\<rparr>"

text \<open>\<^verbatim>\<open>Series.unique()\<close>: the distinct values in order of first appearance.\<close>

fun unique :: "'a list \<Rightarrow> 'a list" where
  "unique [] = []"
| "unique (x # xs) = x # filter (\<lambda>y. y \<noteq> x) (unique xs)"

text \<open>\<^verbatim>\<open>link_segments[link_segments == segment].index\<close>\<close>

definition pipes_in_seg :: "(link_name \<times> int) list \<Rightarrow> int \<Rightarrow> link_name list" where
  "pipes_in_seg link_segments segment =
     map fst (filter (\<lambda>(l, s). s = segment) link_segments)"

text \<open>The inner loop of the segment notebook: one closure per pipe of the segment.\<close>

definition close_segment :: "globals \<Rightarrow> link_name list \<Rightarrow> wn_model" where
  "close_segment g pipes = foldl (\<lambda>wn pipe_name. add_close_control g pipe_name wn) [] pipes"

text \<open>The loop of the segment notebook over \<^verbatim>\<open>link_segments.unique()\<close>.\<close>

fun segment_break_loop ::
  "simulator \<Rightarrow> globals \<Rightarrow> (link_name \<times> int) list \<Rightarrow> int list \<Rightarrow> int batch \<Rightarrow> int batch" where
  "segment_break_loop run_sim g link_segments [] st = st"
| "segment_break_loop run_sim g link_segments (segment # rest) st =
     segment_break_loop run_sim g link_segments rest
       (try_scenario run_sim g segment (close_segment g (pipes_in_seg link_segments segment)) st)"

definition segment_break_analysis ::
  "simulator \<Rightarrow> globals \<Rightarrow> (link_name \<times> int) list \<Rightarrow> int batch" where
  "segment_break_analysis run_sim g link_segments =
     segment_break_loop run_sim g link_segments (unique (map snd link_segments))
       \<lparr>analysis_results = Map.empty, printed = []\<rparr>"

text \<open>What one scenario records, as a function of its own simulation only.\<close>

definition scenario_entry :: "simulator \<Rightarrow> globals \<Rightarrow> wn_model \<Rightarrow> node_name set option" where
  "scenario_entry run_sim g wn =
     (case run_sim wn of Inr sim_results \<Rightarrow> Some (impacted_junctions g sim_results) | Inl e \<Rightarrow> None)"

text \<open>
  The cell that checks normal conditions, after its simulation returned \<open>results\<close>:
  it fixes the non-zero-demand junctions and the junctions already below minimum
  pressure, both read by the loops.
\<close>

definition check_normal_conditions ::
  "(node_name \<times> real) list \<Rightarrow> frame \<Rightarrow> int \<Rightarrow> real \<Rightarrow> globals" where
  "check_normal_conditions AED results start pmin =
     (let nzd = nzd_junctions AED
      in \<lparr>start_time = start, minimum_pressure = pmin, nzd_junct = nzd,
          normal_pressure_below_pmin = baseline_below_pmin results start nzd pmin\<rparr>)"

text \<open>A junction's pressure is below \<open>pmin\<close> at some reported time of a simulation.\<close>

definition falls_below :: "frame \<Rightarrow> node_name \<Rightarrow> real \<Rightarrow> bool" where
  "falls_below df j pmin = list_ex (\<lambda>t. cell df t j < pmin) (index df)"

subsection \<open>A small network used to run the analyses\<close>

text \<open>
  Two junctions with demand and one without, hourly reports over three hours, the break
  at two hours. \<open>sample_frame early late\<close> gives junction J1 the pressure \<open>early\<close>
  before the break time and \<open>late\<close> from it on; every other node stays at 20.
\<close>

definition sample_AED :: "(node_name \<times> real) list" where
  "sample_AED = [(''J1'', 0.002), (''J2'', 0.001), (''J3'', 0)]"

definition sample_frame :: "real \<Rightarrow> real \<Rightarrow> frame" where
  "sample_frame early late =
     \<lparr>index = [0, 3600, 7200, 10800], columns = [''J1'', ''J2'', ''J3'', ''T1''],
      cell = (\<lambda>t j. if j = ''J1'' then (if t < 7200 then early else late) else 20)\<rparr>"

text \<open>Closing P2 makes the simulation fail, closing P3 starves J1, closing P1 is harmless.\<close>

definition sample_sim :: simulator where
  "sample_sim wn =
     (if ''P2'' \<in> set (map (target \<circ> snd) wn) then Inl ''Simulation did not converge''
      else if ''P3'' \<in> set (map (target \<circ> snd) wn) then Inr (sample_frame 20 1)
      else Inr (sample_frame 20 20))"

definition sample_globals :: globals where
  "sample_globals = check_normal_conditions sample_AED (sample_frame 20 20) 7200 3.52"

section \<open>Parameters of a reaction model and their values on a network\<close>

text \<open>
  The model file \<^verbatim>\<open>lead_ppm\<close> declares parameters under \<^verbatim>\<open>reaction_system.parameters\<close>
  (a list of objects with \<^verbatim>\<open>name\<close>, \<^verbatim>\<open>global_value\<close>, \<^verbatim>\<open>note\<close>) and their values on
  a network under \<^verbatim>\<open>network_data.parameter_values\<close> (per parameter name, the two
  dictionaries \<^verbatim>\<open>pipe_values\<close> and \<^verbatim>\<open>tank_values\<close> from location id to value). The
  records keep the fields that parameter resolution reads.
\<close>

record parameter =
  name :: string
  global_value :: real
  note' :: string

record parameter_values =
  pipe_values :: "string \<rightharpoonup> real"
  tank_values :: "string \<rightharpoonup> real"

record reaction_system =
  parameters :: "parameter list"

record network_data =
  parameter_values :: "string \<rightharpoonup> parameter_values"

record msx_model =
  reaction_system :: reaction_system
  network_data :: network_data

datatype location_class = PipeClass | TankClass

datatype error = UndefinedReferenceError string

text \<open>
  Modelled from the spec: the lookup of a parameter's declaration by its (unique) name,
  part of the resolution component that is not among the source files.
\<close>

definition declared_parameter :: "msx_model \<Rightarrow> string \<Rightarrow> parameter option" where
  "declared_parameter m parameter_name =
     find (\<lambda>p. name p = parameter_name) (parameters (reaction_system m))"

text \<open>
  Modelled from the spec: the override map of a parameter that is relevant for a
  location class (\<open>pipe_values\<close> for pipe-class locations, \<open>tank_values\<close> for
  tank-class locations), part of the resolution component that is not among the source
  files. A parameter without an entry in \<^verbatim>\<open>parameter_values\<close> has no overrides (a
  missing optional map is empty).
\<close>

definition relevant_map :: "network_data \<Rightarrow> string \<Rightarrow> location_class \<Rightarrow> (string \<rightharpoonup> real)" where
  "relevant_map nd parameter_name cls =
     (case parameter_values nd parameter_name of
        None \<Rightarrow> Map.empty
      | Some pv \<Rightarrow> (case cls of PipeClass \<Rightarrow> pipe_values pv | TankClass \<Rightarrow> tank_values pv))"

text \<open>
  Modelled from the spec: the function \<^verbatim>\<open>resolve(parameter_name, location_id,
  location_class)\<close> of the parameter/location resolution component is not among the
  source files. It returns the per-location override if present in the relevant map,
  else the parameter's global value; an undeclared name is the validation failure
  \<open>UndefinedReferenceError\<close>.
\<close>

definition resolve :: "msx_model \<Rightarrow> string \<Rightarrow> string \<Rightarrow> location_class \<Rightarrow> error + real" where
  "resolve m parameter_name location_id cls =
     (case declared_parameter m parameter_name of
        None \<Rightarrow> Inl (UndefinedReferenceError parameter_name)
      | Some p \<Rightarrow>
          (case relevant_map (network_data m) parameter_name cls location_id of
             Some v \<Rightarrow> Inr v
           | None \<Rightarrow> Inr (global_value p)))"

text \<open>The parameter data of the model file \<^verbatim>\<open>lead_ppm\<close>.\<close>

definition lead_ppm :: msx_model where
  "lead_ppm =
     \<lparr>reaction_system =
        \<lparr>parameters =
           [\<lparr>name = ''F'', global_value = 0.0,
             note' = ''determines which pipes have reactions''\<rparr>]\<rparr>,
      network_data =
        \<lparr>parameter_values =
           [''F'' \<mapsto> \<lparr>pipe_values = Map.empty, tank_values = Map.empty\<rparr>]\<rparr>\<rparr>"

text \<open>The same model with F forced to 1 on the pipe \<open>P1\<close>.\<close>

definition lead_ppm_F1 :: msx_model where
  "lead_ppm_F1 =
     lead_ppm\<lparr>network_data :=
        \<lparr>parameter_values =
           [''F'' \<mapsto> \<lparr>pipe_values = [''P1'' \<mapsto> 1], tank_values = Map.empty\<rparr>]\<rparr>\<rparr>"

section \<open>Properties of the batch analyses\<close>

lemma set_unique: "set (unique xs) = set xs"
  by (induction xs) auto

lemma distinct_unique: "distinct (unique xs)"
  by (induction xs) (auto simp: set_unique)

lemma try_scenario_results:
  "analysis_results (try_scenario run_sim g s wn st) =
     (analysis_results st)(s \<mapsto> scenario_entry run_sim g wn)"
  by (simp add: try_scenario_def scenario_entry_def split: sum.splits)

lemma pipe_break_loop_results:
  "analysis_results (pipe_break_loop run_sim g ps st) =
     (\<lambda>p. if p \<in> set ps then Some (scenario_entry run_sim g (add_close_control g p []))
          else analysis_results st p)"
  by (induction ps arbitrary: st) (auto simp: try_scenario_results fun_eq_iff)

lemma segment_break_loop_results:
  "analysis_results (segment_break_loop run_sim g ls ss st) =
     (\<lambda>s. if s \<in> set ss then Some (scenario_entry run_sim g (close_segment g (pipes_in_seg ls s)))
          else analysis_results st s)"
  by (induction ss arbitrary: st) (auto simp: try_scenario_results fun_eq_iff)

lemma dom_if_Some: "dom (\<lambda>x. if x \<in> A then Some (f x) else None) = A"
  by (auto simp: dom_def)

text \<open>
  C9. In both batch analyses every scenario id (every pipe of interest, every segment)
  has exactly one entry in \<open>analysis_results\<close>, and no other key has one: the entry is
  the set of impacted junctions when the scenario's simulation returns, and \<open>None\<close> when
  it raises. The entry of a scenario is a function of that scenario's simulation alone,
  so a failure elsewhere in the batch does not change or remove it.
\<close>

theorem batch_records_every_scenario:
  "dom (analysis_results (pipe_break_analysis run_sim g pipes)) = set pipes
   \<and> (\<forall>p \<in> set pipes.
        analysis_results (pipe_break_analysis run_sim g pipes) p =
          Some (case run_sim (add_close_control g p []) of
                  Inr sim_results \<Rightarrow> Some (impacted_junctions g sim_results)
                | Inl e \<Rightarrow> None))
   \<and> dom (analysis_results (segment_break_analysis run_sim g link_segments)) =
        set (map snd link_segments)
   \<and> (\<forall>s \<in> set (map snd link_segments).
        analysis_results (segment_break_analysis run_sim g link_segments) s =
          Some (case run_sim (close_segment g (pipes_in_seg link_segments s)) of
                  Inr sim_results \<Rightarrow> Some (impacted_junctions g sim_results)
                | Inl e \<Rightarrow> None))"
proof -
  have pipe: "analysis_results (pipe_break_analysis run_sim g pipes) =
      (\<lambda>p. if p \<in> set pipes then Some (scenario_entry run_sim g (add_close_control g p []))
           else None)"
    by (simp add: pipe_break_analysis_def pipe_break_loop_results fun_eq_iff)
  have seg: "analysis_results (segment_break_analysis run_sim g link_segments) =
      (\<lambda>s. if s \<in> set (map snd link_segments)
           then Some (scenario_entry run_sim g (close_segment g (pipes_in_seg link_segments s)))
           else None)"
    by (simp add: segment_break_analysis_def segment_break_loop_results set_unique fun_eq_iff)
  have d1: "dom (analysis_results (pipe_break_analysis run_sim g pipes)) = set pipes"
    unfolding pipe by (rule dom_if_Some)
  have d2: "dom (analysis_results (segment_break_analysis run_sim g link_segments)) =
      set (map snd link_segments)"
    unfolding seg by (rule dom_if_Some)
  have e1: "\<forall>p \<in> set pipes.
        analysis_results (pipe_break_analysis run_sim g pipes) p =
          Some (case run_sim (add_close_control g p []) of
                  Inr sim_results \<Rightarrow> Some (impacted_junctions g sim_results)
                | Inl e \<Rightarrow> None)"
    unfolding pipe by (simp add: scenario_entry_def)
  have e2: "\<forall>s \<in> set (map snd link_segments).
        analysis_results (segment_break_analysis run_sim g link_segments) s =
          Some (case run_sim (close_segment g (pipes_in_seg link_segments s)) of
                  Inr sim_results \<Rightarrow> Some (impacted_junctions g sim_results)
                | Inl e \<Rightarrow> None)"
    unfolding seg by (simp add: scenario_entry_def)
  from d1 e1 d2 e2 show ?thesis by blast
qed

lemma sample_globals_eval:
  "sample_globals = \<lparr>start_time = 7200, minimum_pressure = 3.52,
     nzd_junct = [''J1'', ''J2''], normal_pressure_below_pmin = []\<rparr>"
  by (simp add: sample_globals_def check_normal_conditions_def nzd_junctions_def sample_AED_def
      baseline_below_pmin_def columns_any_below_def loc_def sample_frame_def Let_def)

lemma sample_impacted_harmless: "impacted_junctions sample_globals (sample_frame 20 20) = {}"
  by (simp add: sample_globals_eval impacted_junctions_def columns_any_below_def loc_def
      sample_frame_def Let_def)

lemma sample_impacted_starved: "impacted_junctions sample_globals (sample_frame 20 1) = {''J1''}"
  by (simp add: sample_globals_eval impacted_junctions_def columns_any_below_def loc_def
      sample_frame_def Let_def)

text \<open>
  On the sample network the failing scenario (pipe P2, and segment 1 that holds it) is
  recorded as \<open>None\<close> and the scenarios after it are still simulated and recorded.
\<close>

theorem batch_records_every_scenario_witness:
  "analysis_results (pipe_break_analysis sample_sim sample_globals [''P1'', ''P2'', ''P3'']) ''P1''
     = Some (Some {})
   \<and> analysis_results (pipe_break_analysis sample_sim sample_globals [''P1'', ''P2'', ''P3'']) ''P2''
     = Some None
   \<and> analysis_results (pipe_break_analysis sample_sim sample_globals [''P1'', ''P2'', ''P3'']) ''P3''
     = Some (Some {''J1''})
   \<and> dom (analysis_results (pipe_break_analysis sample_sim sample_globals [''P1'', ''P2'', ''P3'']))
     = {''P1'', ''P2'', ''P3''}
   \<and> analysis_results (segment_break_analysis sample_sim sample_globals
        [(''P1'', 1), (''P2'', 1), (''P3'', 0)]) 1 = Some None
   \<and> analysis_results (segment_break_analysis sample_sim sample_globals
        [(''P1'', 1), (''P2'', 1), (''P3'', 0)]) 0 = Some (Some {''J1''})
   \<and> dom (analysis_results (segment_break_analysis sample_sim sample_globals
        [(''P1'', 1), (''P2'', 1), (''P3'', 0)])) = {0, 1}"
  using batch_records_every_scenario [of sample_sim sample_globals "[''P1'', ''P2'', ''P3'']"
      "[(''P1'', 1), (''P2'', 1), (''P3'', 0)]"]
  by (simp add: sample_sim_def add_close_control_def close_segment_def pipes_in_seg_def
      sample_impacted_harmless sample_impacted_starved insert_commute)

subsection \<open>The impacted junctions of one scenario\<close>

lemma set_columns_any_below_loc:
  "set (columns_any_below (loc df start cols) pmin) =
     {j \<in> set cols. \<exists>t \<in> set (index df). start \<le> t \<and> cell df t j < pmin}"
  by (auto simp: columns_any_below_def loc_def list_ex_iff)

lemma set_nzd_junctions: "set (nzd_junctions AED) = {j. \<exists>d. (j, d) \<in> set AED \<and> 0 < d}"
  by (force simp: nzd_junctions_def)

text \<open>
  C10, as the notebooks compute it. With the baseline set taken from the baseline
  simulation \<open>results\<close> as the normal-conditions cell does, the impacted junctions of a
  scenario whose simulation returned \<open>sim_results\<close> are exactly the non-zero-demand
  junctions (\<^verbatim>\<open>nzd_junct\<close>, those with \<^verbatim>\<open>AED > 0\<close>) whose pressure in \<open>sim_results\<close> is below the minimum
  at some reported time at or after the break start, minus the junctions whose pressure
  in the baseline is below the minimum at some reported time at or after the break
  start. Baseline reports before the break start are not looked at.
\<close>

theorem impacted_junctions_exact:
  "impacted_junctions (check_normal_conditions AED results start pmin) sim_results =
     {j. (\<exists>d. (j, d) \<in> set AED \<and> 0 < d)
         \<and> (\<exists>t \<in> set (index sim_results). start \<le> t \<and> cell sim_results t j < pmin)}
     - {j. \<exists>t \<in> set (index results). start \<le> t \<and> cell results t j < pmin}"
  by (auto simp: impacted_junctions_def check_normal_conditions_def baseline_below_pmin_def
      set_columns_any_below_loc set_nzd_junctions Let_def)

text \<open>
  C10 as stated subtracts every junction that falls below the minimum pressure in the
  baseline simulation. On the sample network J1 is below the minimum in the baseline
  during the first two hours only, and below it after the break in the scenario: the
  notebook reports J1 as impacted.
\<close>

theorem impacted_junctions_baseline_counterexample:
  "falls_below (sample_frame 1 20) ''J1'' 3.52
   \<and> ''J1'' \<in> impacted_junctions
        (check_normal_conditions sample_AED (sample_frame 1 20) 7200 3.52) (sample_frame 1 1)"
  by (simp add: falls_below_def impacted_junctions_def check_normal_conditions_def
      baseline_below_pmin_def columns_any_below_def loc_def nzd_junctions_def sample_AED_def
      sample_frame_def Let_def)

section \<open>Parameter resolution\<close>

text \<open>
  C5. For a declared parameter, any location id and either location class, \<open>resolve\<close>
  returns the override stored for the location in the map of its class (\<open>pipe_values\<close>
  for pipes, \<open>tank_values\<close> for tanks) when there is one, and the parameter's global
  value otherwise. A parameter without an override in the map of a class therefore
  resolves to one and the same value, its global value, at every location of the class.
\<close>

theorem resolve_override_else_global:
  assumes "declared_parameter m pn = Some p"
  shows "(parameter_values (network_data m) pn = Some pv \<longrightarrow>
            resolve m pn l PipeClass =
              Inr (case pipe_values pv l of Some v \<Rightarrow> v | None \<Rightarrow> global_value p)
          \<and> resolve m pn l TankClass =
              Inr (case tank_values pv l of Some v \<Rightarrow> v | None \<Rightarrow> global_value p))
       \<and> (parameter_values (network_data m) pn = None \<longrightarrow>
            resolve m pn l cls = Inr (global_value p))
       \<and> (relevant_map (network_data m) pn cls = Map.empty \<longrightarrow>
            resolve m pn l cls = Inr (global_value p) \<and> resolve m pn l' cls = resolve m pn l cls)"
  using assms by (auto simp: resolve_def relevant_map_def split: option.splits)

text \<open>
  On the model file, F resolves to its global value 0 at any pipe and tank; with F forced
  to 1 on pipe P1 it resolves to 1 there, and still to 0 on another pipe and on a tank
  of the same id.
\<close>

theorem resolve_override_else_global_witness:
  "declared_parameter lead_ppm_F1 ''F''
     = Some \<lparr>name = ''F'', global_value = 0, note' = ''determines which pipes have reactions''\<rparr>
   \<and> resolve lead_ppm_F1 ''F'' ''P1'' PipeClass = Inr 1
   \<and> resolve lead_ppm_F1 ''F'' ''P2'' PipeClass = Inr 0
   \<and> resolve lead_ppm_F1 ''F'' ''P1'' TankClass = Inr 0
   \<and> resolve lead_ppm ''F'' ''P1'' PipeClass = Inr 0
   \<and> resolve lead_ppm ''F'' ''T1'' TankClass = Inr 0"
proof -
  have d: "declared_parameter lead_ppm_F1 ''F''
      = Some \<lparr>name = ''F'', global_value = 0, note' = ''determines which pipes have reactions''\<rparr>"
    by (simp add: declared_parameter_def lead_ppm_F1_def lead_ppm_def)
  have d0: "declared_parameter lead_ppm ''F''
      = Some \<lparr>name = ''F'', global_value = 0, note' = ''determines which pipes have reactions''\<rparr>"
    by (simp add: declared_parameter_def lead_ppm_def)
  have pv: "parameter_values (network_data lead_ppm_F1) ''F''
      = Some \<lparr>pipe_values = [''P1'' \<mapsto> 1], tank_values = Map.empty\<rparr>"
    by (simp add: lead_ppm_F1_def)
  have pv0: "relevant_map (network_data lead_ppm) ''F'' cls = Map.empty" for cls
    by (cases cls) (simp_all add: relevant_map_def lead_ppm_def)
  from resolve_override_else_global [OF d, of _ "''P1''"] pv
  have a: "resolve lead_ppm_F1 ''F'' ''P1'' PipeClass = Inr 1"
    "resolve lead_ppm_F1 ''F'' ''P1'' TankClass = Inr 0"
    by simp_all
  from resolve_override_else_global [OF d, of _ "''P2''"] pv
  have b: "resolve lead_ppm_F1 ''F'' ''P2'' PipeClass = Inr 0"
    by simp
  from resolve_override_else_global [OF d0, of _ "''P1''" PipeClass] pv0
  have c: "resolve lead_ppm ''F'' ''P1'' PipeClass = Inr 0"
    by simp
  from resolve_override_else_global [OF d0, of _ "''T1''" TankClass] pv0
  have e: "resolve lead_ppm ''F'' ''T1'' TankClass = Inr 0"
    by simp
  from d a b c e show ?thesis by simp
qed

end
